theory Spec2Isabelle
  imports Complex_Main "HOL-Library.Multiset" "HOL-Library.Product_Lexorder"
begin

section \<open>Numeric values\<close>

text \<open>
  The module computes on numpy \<^verbatim>\<open>float64\<close> values. A value is a finite number, one of the
  two infinities, or not-a-number. Finite values are exact reals here: rounding, overflow of
  a finite result and the sign of zero are not represented. What is represented is everything
  the comparisons and the divisions of the module can observe otherwise: comparisons with
  NaN are false, a non-zero number divided by zero is an infinity, and zero divided by zero
  or infinity minus infinity is NaN. numpy reports such operations as warnings, never as
  exceptions, so none of them is an error branch.
\<close>

datatype fl = Fin real | PInf | NInf | NaN

fun fl_neg :: "fl \<Rightarrow> fl" where
  "fl_neg (Fin a) = Fin (- a)"
| "fl_neg PInf = NInf"
| "fl_neg NInf = PInf"
| "fl_neg NaN = NaN"

fun fl_add :: "fl \<Rightarrow> fl \<Rightarrow> fl" where
  "fl_add (Fin a) (Fin b) = Fin (a + b)"
| "fl_add NaN _ = NaN"
| "fl_add _ NaN = NaN"
| "fl_add PInf NInf = NaN"
| "fl_add NInf PInf = NaN"
| "fl_add PInf _ = PInf"
| "fl_add _ PInf = PInf"
| "fl_add NInf _ = NInf"
| "fl_add _ NInf = NInf"

definition fl_sub :: "fl \<Rightarrow> fl \<Rightarrow> fl" where
  "fl_sub a b = fl_add a (fl_neg b)"

fun fl_mul :: "fl \<Rightarrow> fl \<Rightarrow> fl" where
  "fl_mul (Fin a) (Fin b) = Fin (a * b)"
| "fl_mul NaN _ = NaN"
| "fl_mul _ NaN = NaN"
| "fl_mul PInf (Fin b) = (if b = 0 then NaN else if 0 < b then PInf else NInf)"
| "fl_mul NInf (Fin b) = (if b = 0 then NaN else if 0 < b then NInf else PInf)"
| "fl_mul (Fin a) PInf = (if a = 0 then NaN else if 0 < a then PInf else NInf)"
| "fl_mul (Fin a) NInf = (if a = 0 then NaN else if 0 < a then NInf else PInf)"
| "fl_mul PInf PInf = PInf"
| "fl_mul NInf NInf = PInf"
| "fl_mul PInf NInf = NInf"
| "fl_mul NInf PInf = NInf"

fun fl_div :: "fl \<Rightarrow> fl \<Rightarrow> fl" where
  "fl_div (Fin a) (Fin b) =
     (if b = 0 then (if a = 0 then NaN else if 0 < a then PInf else NInf)
      else Fin (a / b))"
| "fl_div NaN _ = NaN"
| "fl_div _ NaN = NaN"
| "fl_div (Fin a) _ = Fin 0"
| "fl_div PInf (Fin b) = (if 0 \<le> b then PInf else NInf)"
| "fl_div NInf (Fin b) = (if 0 \<le> b then NInf else PInf)"
| "fl_div _ _ = NaN"

text \<open>The comparisons \<^verbatim>\<open><\<close>, \<^verbatim>\<open><=\<close> and \<^verbatim>\<open>==\<close>: all false when an operand is NaN.\<close>

fun fl_lt :: "fl \<Rightarrow> fl \<Rightarrow> bool" where
  "fl_lt (Fin a) (Fin b) = (a < b)"
| "fl_lt NaN _ = False"
| "fl_lt _ NaN = False"
| "fl_lt _ NInf = False"
| "fl_lt NInf _ = True"
| "fl_lt PInf _ = False"
| "fl_lt _ PInf = True"

fun fl_le :: "fl \<Rightarrow> fl \<Rightarrow> bool" where
  "fl_le (Fin a) (Fin b) = (a \<le> b)"
| "fl_le NaN _ = False"
| "fl_le _ NaN = False"
| "fl_le NInf _ = True"
| "fl_le _ PInf = True"
| "fl_le _ _ = False"

definition fl_eq :: "fl \<Rightarrow> fl \<Rightarrow> bool" where
  "fl_eq a b = (a \<noteq> NaN \<and> a = b)"

section \<open>Arrays, errors and the library interface\<close>

text \<open>
  A numeric numpy array of one or two dimensions. A two-dimensional array is its list of
  rows; \<open>len\<close> is the number of rows.
\<close>

datatype ndarray = Arr1 "fl list" | Arr2 "fl list list"

text \<open>Boolean-mask indexing visits the elements in row-major order.\<close>

fun ravel :: "ndarray \<Rightarrow> fl list" where
  "ravel (Arr1 xs) = xs"
| "ravel (Arr2 rows) = concat rows"

datatype error = ValueError | AssertionError | IndexError | TypeError | LibraryError string

text \<open>\<open>np.sum\<close> of a float array; the sum of the empty array is \<open>0.0\<close>.\<close>

definition np_sum :: "fl list \<Rightarrow> fl" where
  "np_sum xs = foldl fl_add (Fin 0) xs"

text \<open>
  The order numpy sorts floats in: \<open>a\<close> goes before \<open>b\<close> when \<open>a < b\<close>, or when \<open>b\<close> is NaN
  and \<open>a\<close> is not (NaN sorts last).
\<close>

definition np_lt :: "fl \<Rightarrow> fl \<Rightarrow> bool" where
  "np_lt a b = (fl_lt a b \<or> (b = NaN \<and> a \<noteq> NaN))"

text \<open>
  \<open>keys.argsort(kind='mergesort')\<close>: the indices of \<open>keys\<close> in ascending order of their
  keys, by a merge sort that takes from the right run only an element strictly before the
  head of the left run, so that equal keys keep their order.
\<close>

fun merge_idx :: "fl list \<Rightarrow> nat list \<Rightarrow> nat list \<Rightarrow> nat list" where
  "merge_idx keys [] js = js"
| "merge_idx keys is [] = is"
| "merge_idx keys (i # is) (j # js) =
     (if np_lt (keys ! j) (keys ! i) then j # merge_idx keys (i # is) js
      else i # merge_idx keys is (j # js))"

fun msort_idx :: "fl list \<Rightarrow> nat list \<Rightarrow> nat list" where
  "msort_idx keys is =
     (if length is \<le> 1 then is
      else merge_idx keys (msort_idx keys (take (length is div 2) is))
                          (msort_idx keys (drop (length is div 2) is)))"

declare msort_idx.simps [simp del]

definition argsort :: "fl list \<Rightarrow> nat list" where
  "argsort keys = msort_idx keys [0..<length keys]"

text \<open>Indexing an array with an index array: \<open>xs[idx]\<close>.\<close>

definition take_idx :: "'a list \<Rightarrow> nat list \<Rightarrow> 'a list" where
  "take_idx xs idx = map (\<lambda>i. xs ! i) idx"

text \<open>The slice \<open>xs[:max_len]\<close>, for \<open>max_len\<close> either \<open>None\<close> or at least 1.\<close>

fun slice_to :: "'a list \<Rightarrow> int option \<Rightarrow> 'a list" where
  "slice_to xs None = xs"
| "slice_to xs (Some m) = take (nat m) xs"

section \<open>load_tempo\<close>

text \<open>
  The values are given in memory (a list or an array) or as a file name or handle, which
  \<open>np.loadtxt\<close> reads. The reader is outside this module: it is a parameter that, run in a
  state \<open>'w\<close> of the outside world, gives an array or an error, and the next state.
\<close>

datatype 'h tempo_values = Values ndarray | Source 'h

type_synonym ('h, 'w) loader = "'h \<Rightarrow> 'w \<Rightarrow> (error + ndarray) \<times> 'w"

text \<open>Lines 289 to 319: from the array of values to the rows of tempi and strengths.\<close>

definition load_tempo_array ::
  "ndarray \<Rightarrow> fl \<Rightarrow> bool \<Rightarrow> bool \<Rightarrow> int option \<Rightarrow> error + (fl \<times> fl) list" where
  "load_tempo_array values split_value srt norm_strengths max_len =
     (let tempi = filter (\<lambda>v. fl_lt split_value v) (ravel values);
          strengths = filter (\<lambda>v. fl_le v split_value) (ravel values);
          strength_sum = np_sum strengths;
          relative = (int (length tempi) - int (length strengths) = 1);
          strengths1 = (if relative then strengths @ [fl_sub (Fin 1) strength_sum]
                        else strengths)
      in if relative \<and> list_ex (\<lambda>s. fl_lt s (Fin 0)) strengths1 then Inl AssertionError
         else
           let strengths2 = (if fl_eq strength_sum (Fin 0)
                             then map (\<lambda>t. fl_div (Fin 1) (Fin (real (length tempi)))) tempi
                             else strengths1);
               strengths3 = (if norm_strengths
                             then map (\<lambda>s. fl_div s strength_sum) strengths2
                             else strengths2)
           in if length tempi \<noteq> length strengths3 then Inl AssertionError
              else
                let sort_idx = argsort (map fl_neg strengths3);
                    tempi' = (if srt then take_idx tempi sort_idx else tempi);
                    strengths' = (if srt then take_idx strengths3 sort_idx else strengths3)
                in Inr (zip (slice_to tempi' max_len) (slice_to strengths' max_len)))"

text \<open>Lines 282 to 288: values in memory are taken as they are, anything else is read.\<close>

definition read_values ::
  "('h, 'w) loader \<Rightarrow> 'h tempo_values \<Rightarrow> 'w \<Rightarrow> (error + ndarray) \<times> 'w" where
  "read_values loadtxt values w =
     (case values of Values a \<Rightarrow> (Inr a, w) | Source h \<Rightarrow> loadtxt h w)"

text \<open>Line 279: \<open>max_len is not None and max_len < 1\<close>.\<close>

definition max_len_invalid :: "int option \<Rightarrow> bool" where
  "max_len_invalid max_len = (case max_len of None \<Rightarrow> False | Some m \<Rightarrow> m < 1)"

text \<open>
  Lines 278 to 281, then the rest: the check of \<open>max_len\<close> comes first, then the values are
  converted or read.
\<close>

definition load_tempo ::
  "('h, 'w) loader \<Rightarrow> 'h tempo_values \<Rightarrow> fl \<Rightarrow> bool \<Rightarrow> bool \<Rightarrow> int option \<Rightarrow> 'w
     \<Rightarrow> (error + (fl \<times> fl) list) \<times> 'w" where
  "load_tempo loadtxt values split_value srt norm_strengths max_len w =
     (if max_len_invalid max_len then (Inl ValueError, w)
      else
        case read_values loadtxt values w of
          (Inl e, w') \<Rightarrow> (Inl e, w')
        | (Inr a, w') \<Rightarrow> (load_tempo_array a split_value srt norm_strengths max_len, w'))"

section \<open>The writers\<close>

text \<open>
  \<open>np.savetxt\<close> is outside this module too: a parameter that formats an array to a
  destination in the outside world and may fail. What a Python function returns is either
  a value or \<open>None\<close>.
\<close>

datatype fmt = Fmt string | Fmts "string list"

datatype 'a returned = PyNone | Value 'a

type_synonym ('f, 'a, 'w) saver =
  "'f \<Rightarrow> 'a \<Rightarrow> fmt \<Rightarrow> string \<Rightarrow> string \<Rightarrow> 'w \<Rightarrow> (error + unit) \<times> 'w"

text \<open>Lines 42 to 74. The defaults of \<open>fmt\<close>, \<open>delimiter\<close> and \<open>header\<close> are the caller's.\<close>

definition write_events ::
  "('f, 'a, 'w) saver \<Rightarrow> 'a \<Rightarrow> 'f \<Rightarrow> fmt \<Rightarrow> string \<Rightarrow> string \<Rightarrow> 'w
     \<Rightarrow> (error + 'a returned) \<times> 'w" where
  "write_events savetxt events filename fmt delimiter header w =
     (case savetxt filename events fmt delimiter header w of
        (Inl e, w') \<Rightarrow> (Inl e, w')
      | (Inr u, w') \<Rightarrow> (Inr (Value events), w'))"

text \<open>Line 116.\<close>

definition write_onsets ::
  "('f, 'a, 'w) saver \<Rightarrow> 'a \<Rightarrow> 'f \<Rightarrow> fmt \<Rightarrow> string \<Rightarrow> string \<Rightarrow> 'w
     \<Rightarrow> (error + 'a returned) \<times> 'w" where
  "write_onsets = write_events"

text \<open>
  Lines 164 to 180. The keyword arguments are passed on to write_events beside \<open>fmt\<close>, so
  only \<open>delimiter\<close> and \<open>header\<close> are accepted; any other keyword is a TypeError of the call.
  The function has no return statement: when write_events comes back, its value is dropped.
\<close>

fun ndim :: "ndarray \<Rightarrow> nat" where
  "ndim (Arr1 xs) = 1"
| "ndim (Arr2 rows) = 2"

definition kwarg :: "(string \<times> string) list \<Rightarrow> string \<Rightarrow> string \<Rightarrow> string" where
  "kwarg kwargs k dflt = (case map_of kwargs k of None \<Rightarrow> dflt | Some v \<Rightarrow> v)"

definition write_beats ::
  "('f, ndarray, 'w) saver \<Rightarrow> ndarray \<Rightarrow> 'f \<Rightarrow> (string \<times> string) list \<Rightarrow> 'w
     \<Rightarrow> (error + ndarray returned) \<times> 'w" where
  "write_beats savetxt beats filename kwargs w =
     (let fmt = (if ndim beats = 2 then Fmts [''%.3f'', ''%d''] else Fmt ''%.3f'')
      in if list_ex (\<lambda>(k, v). k \<noteq> ''delimiter'' \<and> k \<noteq> ''header'') kwargs
         then (Inl TypeError, w)
         else
           case write_events savetxt beats filename fmt
                  (kwarg kwargs ''delimiter'' [CHR 0x09]) (kwarg kwargs ''header'' []) w of
             (Inl e, w') \<Rightarrow> (Inl e, w')
           | (Inr r, w') \<Rightarrow> (Inr PyNone, w'))"

text \<open>Lines 214 to 238. A chord segment is a start time, an end time and a label.\<close>

type_synonym chord = "fl \<times> fl \<times> string"

definition write_chords ::
  "('f, chord list, 'w) saver \<Rightarrow> chord list \<Rightarrow> 'f \<Rightarrow> 'w
     \<Rightarrow> (error + chord list returned) \<times> 'w" where
  "write_chords savetxt chords filename w =
     (case savetxt filename chords (Fmts [''%.3f'', ''%.3f'', ''%s'']) [CHR 0x09] [] w of
        (Inl e, w') \<Rightarrow> (Inl e, w')
      | (Inr u, w') \<Rightarrow> (Inr (Value chords), w'))"

section \<open>write_tempo\<close>

text \<open>\<open>np.array(tempi, ndmin=2)\<close>: a one-dimensional array becomes a single row.\<close>

fun atleast_2d :: "ndarray \<Rightarrow> fl list list" where
  "atleast_2d (Arr1 xs) = [xs]"
| "atleast_2d (Arr2 rows) = rows"

text \<open>The element \<open>tempi[i, j]\<close>; outside the array it is an IndexError.\<close>

definition item :: "fl list list \<Rightarrow> nat \<Rightarrow> nat \<Rightarrow> error + fl" where
  "item rows i j =
     (if i < length rows \<and> j < length (rows ! i) then Inr (rows ! i ! j) else Inl IndexError)"

text \<open>
  Lines 346 to 365: the two tempi and the relative strength that are reported. Python's
  \<open>sum\<close> starts from 0 and adds the elements from the left.
\<close>

definition tempo_triple :: "ndarray \<Rightarrow> bool \<Rightarrow> error + fl \<times> fl \<times> fl" where
  "tempo_triple tempi mirex =
     (let rows = atleast_2d tempi;
          found =
            (if length rows = 1 then
               (case item rows 0 0 of
                  Inl e \<Rightarrow> Inl e
                | Inr t1 \<Rightarrow>
                    Inr (t1, if fl_lt t1 (Fin 68) then fl_mul t1 (Fin 2) else fl_div t1 (Fin 2),
                         Fin 1))
             else if length rows > 1 then
               (case (item rows 0 0, item rows 1 0, item rows 0 1, item rows 1 1) of
                  (Inr t1, Inr t2, Inr s1, Inr s2) \<Rightarrow>
                    Inr (t1, t2, fl_div s1 (fl_add (fl_add (Fin 0) s1) s2))
                | _ \<Rightarrow> Inl IndexError)
             else Inr (Fin 0, Fin 0, Fin 1))
      in case found of
           Inl e \<Rightarrow> Inl e
         | Inr (t1, t2, strength) \<Rightarrow>
             if mirex \<and> fl_lt t2 t1 then Inr (t2, t1, fl_sub (Fin 1) strength)
             else Inr (t1, t2, strength))"

text \<open>Lines 366 to 371: the triple is written as one row, then returned.\<close>

definition tempo_fmt :: fmt where
  "tempo_fmt = Fmt (''%.2f'' @ [CHR 0x09] @ ''%.2f'' @ [CHR 0x09] @ ''%.2f'')"

definition write_tempo ::
  "('f, ndarray, 'w) saver \<Rightarrow> ndarray \<Rightarrow> 'f \<Rightarrow> bool \<Rightarrow> 'w
     \<Rightarrow> (error + fl \<times> fl \<times> fl) \<times> 'w" where
  "write_tempo savetxt tempi filename mirex w =
     (case tempo_triple tempi mirex of
        Inl e \<Rightarrow> (Inl e, w)
      | Inr (t1, t2, strength) \<Rightarrow>
          (case savetxt filename (Arr2 [[t1, t2, strength]]) tempo_fmt '' '' [] w of
             (Inl e, w') \<Rightarrow> (Inl e, w')
           | (Inr u, w') \<Rightarrow> (Inr (t1, t2, strength), w')))"

section \<open>An outside world for the examples\<close>

text \<open>
  For the concrete runs below: a world that is the list of what has been written so far,
  where every write succeeds, and a reader that finds no file.
\<close>

definition savetxt_log :: "(string, 'a, (string \<times> 'a) list) saver" where
  "savetxt_log filename a fmt delimiter header w = (Inr (), w @ [(filename, a)])"

definition loadtxt_none :: "(string, (string \<times> ndarray) list) loader" where
  "loadtxt_none filename w = (Inl (LibraryError filename), w)"

section \<open>The sorting order as a rank\<close>

text \<open>
  Used in the proofs only: numpy's sorting order on floats is the order of these ranks,
  with \<open>-inf\<close> first, the finite values by their value, then \<open>inf\<close>, then NaN.
\<close>

fun sort_rank :: "fl \<Rightarrow> nat \<times> real" where
  "sort_rank NInf = (0, 0)"
| "sort_rank (Fin a) = (1, a)"
| "sort_rank PInf = (2, 0)"
| "sort_rank NaN = (3, 0)"

section \<open>Facts about the numeric values and the library functions\<close>

lemma fl_lt_not_le: "fl_lt a b \<Longrightarrow> \<not> fl_le b a"
  by (cases a; cases b) auto

lemma fl_lt_irrefl: "\<not> fl_lt a a"
  by (cases a) auto

lemma take_idx_upt: "take_idx xs [0..<length xs] = xs"
  by (simp add: take_idx_def map_nth)

lemma np_sum_replicate_PInf: "np_sum (replicate n PInf) = (if n = 0 then Fin 0 else PInf)"
proof -
  have "foldl fl_add PInf (replicate m PInf) = PInf" for m
    by (induction m) auto
  then show ?thesis by (cases n) (auto simp: np_sum_def)
qed

subsection \<open>Sorting keys that are all in order already\<close>

lemma merge_idx_append:
  assumes "\<forall>i\<in>set is. \<forall>j\<in>set js. \<not> np_lt (keys ! j) (keys ! i)"
  shows "merge_idx keys is js = is @ js"
  using assms by (induction keys "is" js rule: merge_idx.induct) auto

lemma msort_idx_id:
  assumes "\<forall>i\<in>set is. \<forall>j\<in>set is. \<not> np_lt (keys ! j) (keys ! i)"
  shows "msort_idx keys is = is"
  using assms
proof (induction keys "is" rule: msort_idx.induct)
  case (1 keys "is")
  show ?case
  proof (cases "length is \<le> 1")
    case True
    then show ?thesis by (simp add: msort_idx.simps)
  next
    case False
    let ?l = "take (length is div 2) is" and ?r = "drop (length is div 2) is"
    have sub: "set ?l \<subseteq> set is" "set ?r \<subseteq> set is"
      by (auto dest: in_set_takeD in_set_dropD)
    have l: "msort_idx keys ?l = ?l" using "1.IH"(1) [OF False] "1.prems" sub by blast
    have r: "msort_idx keys ?r = ?r" using "1.IH"(2) [OF False] "1.prems" sub by blast
    have "merge_idx keys ?l ?r = ?l @ ?r"
      using "1.prems" sub by (intro merge_idx_append) blast
    with l r False show ?thesis by (simp add: msort_idx.simps [of keys "is"])
  qed
qed

lemma argsort_replicate: "argsort (replicate n k) = [0..<n]"
  unfolding argsort_def
  by (rule trans [OF msort_idx_id]) (auto simp: np_lt_def fl_lt_irrefl)

section \<open>The stages of load_tempo\<close>

text \<open>
  The result of lines 289 to 319 in terms of the intermediate arrays, when neither check
  fails.
\<close>

lemma load_tempo_array_stages:
  assumes "tempi = filter (\<lambda>v. fl_lt split_value v) (ravel a)"
    and "strengths = filter (\<lambda>v. fl_le v split_value) (ravel a)"
    and "strength_sum = np_sum strengths"
    and "relative = (int (length tempi) - int (length strengths) = 1)"
    and "strengths1 = (if relative then strengths @ [fl_sub (Fin 1) strength_sum] else strengths)"
    and "\<not> (relative \<and> list_ex (\<lambda>s. fl_lt s (Fin 0)) strengths1)"
    and "strengths2 = (if fl_eq strength_sum (Fin 0)
                       then map (\<lambda>t. fl_div (Fin 1) (Fin (real (length tempi)))) tempi
                       else strengths1)"
    and "strengths3 = (if norm_strengths then map (\<lambda>s. fl_div s strength_sum) strengths2
                       else strengths2)"
    and "length tempi = length strengths3"
  shows "load_tempo_array a split_value srt norm_strengths max_len
           = Inr (zip (slice_to (if srt then take_idx tempi (argsort (map fl_neg strengths3))
                                 else tempi) max_len)
                      (slice_to (if srt then take_idx strengths3 (argsort (map fl_neg strengths3))
                                 else strengths3) max_len))"
  using assms(6,9) unfolding assms(1-5,7,8) load_tempo_array_def Let_def
  by simp

text \<open>
  When every value is above \<open>split_value\<close> there are no strengths, their sum is \<open>0.0\<close>, the
  uniform strengths \<open>1 / len(tempi)\<close> are divided by that sum, and every strength becomes
  \<open>inf\<close>.
\<close>

lemma load_tempo_array_all_tempi:
  assumes "list_all (\<lambda>v. fl_lt split_value v) (ravel a)"
  shows "load_tempo_array a split_value srt True max_len
           = Inr (map (\<lambda>t. (t, PInf)) (slice_to (ravel a) max_len))"
proof -
  let ?ts = "ravel a"
  let ?n = "length ?ts"
  let ?s1 = "if int ?n - int (length ([]::fl list)) = 1 then [] @ [fl_sub (Fin 1) (Fin 0)] else []"
  let ?s2 = "map (\<lambda>t. fl_div (Fin 1) (Fin (real ?n))) ?ts"
  let ?s3 = "replicate ?n PInf"
  have t: "?ts = filter (\<lambda>v. fl_lt split_value v) ?ts"
    using assms by (simp add: list_all_iff)
  have s: "[] = filter (\<lambda>v. fl_le v split_value) ?ts"
    using assms fl_lt_not_le by (auto simp: list_all_iff filter_empty_conv)
  have u: "?s3 = (if True then map (\<lambda>s. fl_div s (Fin 0)) ?s2 else ?s2)"
    by (cases "?ts = []") (auto simp: map_replicate_const)
  have z: "zip (slice_to xs max_len) (slice_to (replicate (length xs) PInf) max_len)
             = map (\<lambda>t. (t, PInf)) (slice_to xs max_len)" for xs :: "fl list"
    by (cases max_len)
      (simp_all add: map_replicate_const [symmetric] zip_map2 zip_same_conv_map take_map
        del: replicate_eq_replicate)
  have "load_tempo_array a split_value srt True max_len
          = Inr (zip (slice_to (if srt then take_idx ?ts (argsort (map fl_neg ?s3)) else ?ts) max_len)
                     (slice_to (if srt then take_idx ?s3 (argsort (map fl_neg ?s3)) else ?s3)
                        max_len))"
  proof (rule load_tempo_array_stages [OF t s _ refl refl _ _ u])
    show "Fin 0 = np_sum []" by (simp add: np_sum_def)
    show "\<not> (int ?n - int (length ([]::fl list)) = 1 \<and> list_ex (\<lambda>s. fl_lt s (Fin 0)) ?s1)"
      by (simp add: fl_sub_def)
    show "?s2 = (if fl_eq (Fin 0) (Fin 0) then ?s2 else ?s1)"
      by (simp add: fl_eq_def)
    show "?n = length ?s3" by simp
  qed
  also have "argsort (map fl_neg ?s3) = [0..<?n]"
    by (simp add: argsort_replicate)
  finally show ?thesis
    using take_idx_upt [of ?ts] take_idx_upt [of ?s3] by (simp add: z)
qed

section \<open>The merge sort is a stable sort\<close>


lemma sort_rank_eq: "sort_rank a = sort_rank b \<longleftrightarrow> a = b"
  by (cases a; cases b) auto
















section \<open>Sorting by strength\<close>



section \<open>Normalised strengths\<close>

text \<open>
  C1: with \<open>norm_strengths=True\<close> the returned strengths should sum to 1. They do not when
  a strength was completed: the divisor is the sum taken before the completion. For the
  input \<open>[120, 60, 0.5]\<close>, in the documented format of two tempi and the relative strength of
  the first, the strengths \<open>[0.5, 0.5]\<close> are divided by \<open>0.5\<close>: the rows returned are
  \<open>(120, 1.0)\<close> and \<open>(60, 1.0)\<close>, and the strengths sum to 2.
\<close>

theorem load_tempo_norm_strengths_sum_two:
  "load_tempo loadtxt (Values (Arr1 [Fin 120, Fin 60, Fin (1/2)])) (Fin 1) False True None w
     = (Inr [(Fin 120, Fin 1), (Fin 60, Fin 1)], w)
   \<and> np_sum (map snd [(Fin 120, Fin 1), (Fin 60, Fin 1)]) = Fin 2"
  by (simp add: load_tempo_def max_len_invalid_def read_values_def load_tempo_array_def
      np_sum_def fl_sub_def fl_eq_def Let_def)

text \<open>
  C10: when every value is above \<open>split_value\<close> and \<open>norm_strengths=True\<close>, the call returns,
  with no error, one row for each tempo kept by \<open>max_len\<close>, and every strength is \<open>inf\<close>: the
  uniform strengths have been divided by the zero sum. The returned strengths do not sum
  to 1.
\<close>

theorem load_tempo_norm_zero_sum:
  assumes "\<not> max_len_invalid max_len"
    and "read_values loadtxt values w = (Inr a, w')"
    and "list_all (\<lambda>v. fl_lt split_value v) (ravel a)"
  shows "load_tempo loadtxt values split_value srt True max_len w
           = (Inr (map (\<lambda>t. (t, PInf)) (slice_to (ravel a) max_len)), w')
         \<and> np_sum (map snd (map (\<lambda>t. (t, PInf)) (slice_to (ravel a) max_len))) \<noteq> Fin 1"
proof -
  have "map snd (map (\<lambda>t. (t, PInf)) xs) = replicate (length xs) PInf" for xs :: "fl list"
    by (simp add: map_replicate_const comp_def)
  then have "np_sum (map snd (map (\<lambda>t. (t, PInf)) xs)) \<noteq> Fin 1" for xs :: "fl list"
    by (simp add: np_sum_replicate_PInf)
  with assms load_tempo_array_all_tempi [OF assms(3)] show ?thesis
    by (simp add: load_tempo_def)
qed

theorem load_tempo_norm_zero_sum_witness:
  "load_tempo loadtxt_none (Values (Arr1 [Fin 120, Fin 60])) (Fin 1) False True None []
     = (Inr [(Fin 120, PInf), (Fin 60, PInf)], [])
   \<and> np_sum (map snd [(Fin 120, PInf), (Fin 60, PInf)]) \<noteq> Fin 1"
  using load_tempo_norm_zero_sum [of None loadtxt_none "Values (Arr1 [Fin 120, Fin 60])" "[]"
      "Arr1 [Fin 120, Fin 60]" "[]" "Fin 1" False]
  by (simp add: max_len_invalid_def read_values_def)

section \<open>Negative strengths\<close>

text \<open>
  C6: when there is exactly one more tempo than strengths, so that the last strength is
  completed, and the completed strengths contain a negative value, the call fails with the
  invariant violation (AssertionError) and returns no rows.
\<close>

theorem load_tempo_completion_negative:
  assumes "\<not> max_len_invalid max_len"
    and "read_values loadtxt values w = (Inr a, w')"
    and "tempi = filter (\<lambda>v. fl_lt split_value v) (ravel a)"
    and "strengths = filter (\<lambda>v. fl_le v split_value) (ravel a)"
    and "int (length tempi) - int (length strengths) = 1"
    and "list_ex (\<lambda>s. fl_lt s (Fin 0)) (strengths @ [fl_sub (Fin 1) (np_sum strengths)])"
  shows "load_tempo loadtxt values split_value srt norm_strengths max_len w
           = (Inl AssertionError, w')"
  using assms by (simp add: load_tempo_def load_tempo_array_def Let_def)

theorem load_tempo_completion_negative_witness:
  "load_tempo loadtxt_none (Values (Arr1 [Fin 120, Fin 60, Fin 90, Fin (3/4), Fin (3/4)]))
     (Fin 1) False False None [] = (Inl AssertionError, [])"
  using load_tempo_completion_negative [of None loadtxt_none
      "Values (Arr1 [Fin 120, Fin 60, Fin 90, Fin (3/4), Fin (3/4)])" "[]"
      "Arr1 [Fin 120, Fin 60, Fin 90, Fin (3/4), Fin (3/4)]" "[]"
      "[Fin 120, Fin 60, Fin 90]" "Fin 1" "[Fin (3/4), Fin (3/4)]" False False]
  by (simp add: max_len_invalid_def read_values_def np_sum_def fl_sub_def)

text \<open>
  C8: no returned strength should be negative. The check for negative strengths runs only
  when a strength is completed. For the input \<open>[120, -0.5]\<close>, one tempo with its strength,
  nothing is completed and the row \<open>(120, -0.5)\<close> is returned.
\<close>

theorem load_tempo_negative_strength_returned:
  "load_tempo loadtxt (Values (Arr1 [Fin 120, Fin (- 1/2)])) (Fin 1) False False None w
     = (Inr [(Fin 120, Fin (- 1/2))], w)
   \<and> fl_lt (snd (Fin 120, Fin (- 1/2))) (Fin 0)"
  by (simp add: load_tempo_def max_len_invalid_def read_values_def load_tempo_array_def
      np_sum_def fl_sub_def fl_eq_def Let_def)

section \<open>Invalid max_len\<close>

text \<open>
  C7: when \<open>max_len\<close> is given and below 1, load_tempo fails with the invalid-argument error
  (ValueError) whatever the values are, and the outside world is returned as it was: the
  reader has not run.
\<close>

theorem load_tempo_max_len_invalid:
  assumes "max_len = Some m" and "m < 1"
  shows "load_tempo loadtxt values split_value srt norm_strengths max_len w
           = (Inl ValueError, w)"
  using assms by (simp add: load_tempo_def max_len_invalid_def)

theorem load_tempo_max_len_invalid_witness:
  "load_tempo loadtxt_none (Source ''tempo.txt'') (Fin 1) False False (Some 0) []
     = (Inl ValueError, [])"
  using load_tempo_max_len_invalid [of "Some 0" 0] by simp

section \<open>What the writers return\<close>

text \<open>
  C9: every writer should return its input. write_beats does not: it ends without a return
  statement, so whatever the array, the destination and the outcome of the write, the value
  it returns is never its input.
\<close>

theorem write_beats_never_returns_input:
  "fst (write_beats savetxt beats filename kwargs w) \<noteq> Inr (Value beats)"
  by (simp add: write_beats_def Let_def split: prod.splits sum.splits)

text \<open>The other three writers return their input whenever the write succeeds.\<close>

lemma write_events_returns_input:
  assumes "savetxt filename events fmt delimiter header w = (Inr (), w')"
  shows "write_events savetxt events filename fmt delimiter header w = (Inr (Value events), w')"
    and "write_onsets savetxt events filename fmt delimiter header w = (Inr (Value events), w')"
  using assms by (simp_all add: write_onsets_def write_events_def)

lemma write_chords_returns_input:
  assumes "savetxt filename chords (Fmts [''%.3f'', ''%.3f'', ''%s'']) [CHR 0x09] [] w
             = (Inr (), w')"
  shows "write_chords savetxt chords filename w = (Inr (Value chords), w')"
  using assms by (simp add: write_chords_def)

lemma write_beats_example:
  "write_beats savetxt_log (Arr1 [Fin 1, Fin 2]) ''beats.txt'' [] []
     = (Inr PyNone, [(''beats.txt'', Arr1 [Fin 1, Fin 2])])"
  by (simp add: write_beats_def write_events_def savetxt_log_def Let_def)

section \<open>The triple reported by write_tempo\<close>

lemma tempo_triple_mirex:
  assumes "tempo_triple tempi False = Inr (t1, t2, strength)"
  shows "tempo_triple tempi True
           = Inr (if fl_lt t2 t1 then (t2, t1, fl_sub (Fin 1) strength) else (t1, t2, strength))"
  using assms
  by (auto simp: tempo_triple_def Let_def split: sum.splits prod.splits if_splits)

text \<open>
  C3, as amended: for an input of exactly one row that starts with the tempo \<open>t1\<close>, let \<open>t2\<close>
  be \<open>t1 * 2\<close> when \<open>t1 < 68\<close> and \<open>t1 / 2\<close> otherwise. When the write succeeds, the triple
  returned is \<open>(t1, t2, 1.0)\<close>, unless \<open>mirex\<close> is set and \<open>t1 > t2\<close>: then it is
  \<open>(t2, t1, 0.0)\<close>.
\<close>

theorem write_tempo_single_row:
  assumes rows: "atleast_2d tempi = [t1 # rest]"
    and t2: "t2 = (if fl_lt t1 (Fin 68) then fl_mul t1 (Fin 2) else fl_div t1 (Fin 2))"
    and r: "r = (if mirex \<and> fl_lt t2 t1 then (t2, t1, Fin 0) else (t1, t2, Fin 1))"
    and saved: "savetxt filename (Arr2 [[fst r, fst (snd r), snd (snd r)]]) tempo_fmt '' '' [] w
                  = (Inr (), w')"
  shows "write_tempo savetxt tempi filename mirex w = (Inr r, w')"
  using assms
  by (auto simp: write_tempo_def tempo_triple_def item_def fl_sub_def Let_def)

theorem write_tempo_single_row_witness:
  "write_tempo savetxt_log (Arr2 [[Fin 60, Fin (3/5)]]) ''tempo.txt'' False []
     = (Inr (Fin 60, Fin 120, Fin 1), [(''tempo.txt'', Arr2 [[Fin 60, Fin 120, Fin 1]])])"
  using write_tempo_single_row [of "Arr2 [[Fin 60, Fin (3/5)]]" "Fin 60" "[Fin (3/5)]"
      "Fin 120" "(Fin 60, Fin 120, Fin 1)" False savetxt_log "''tempo.txt''" "[]"
      "[(''tempo.txt'', Arr2 [[Fin 60, Fin 120, Fin 1]])]"]
  by (simp add: savetxt_log_def)

text \<open>
  The claim as it was stated fails with \<open>mirex\<close> set: for the single row \<open>(120, 0.6)\<close> the
  triple returned is \<open>(60, 120, 0.0)\<close>, not \<open>(120, 60, 1.0)\<close>.
\<close>

theorem write_tempo_single_row_counterexample:
  "write_tempo savetxt_log (Arr2 [[Fin 120, Fin (3/5)]]) ''tempo.txt'' True []
     = (Inr (Fin 60, Fin 120, Fin 0), [(''tempo.txt'', Arr2 [[Fin 60, Fin 120, Fin 0]])])
   \<and> (Fin 60, Fin 120, Fin 0) \<noteq> (Fin 120, fl_div (Fin 120) (Fin 2), Fin 1)"
  by (simp add: write_tempo_def tempo_triple_def item_def savetxt_log_def fl_sub_def Let_def)

text \<open>
  C4: let \<open>(t1, t2, strength)\<close> be the triple that write_tempo returns without \<open>mirex\<close>. With
  \<open>mirex\<close> set and the write succeeding, it returns \<open>(t2, t1, 1 - strength)\<close> when \<open>t1 > t2\<close>, and
  the same triple \<open>(t1, t2, strength)\<close> otherwise, in particular when \<open>t1 <= t2\<close>.
\<close>

theorem write_tempo_mirex:
  assumes computed: "write_tempo savetxt tempi filename False w = (Inr (t1, t2, strength), w0)"
    and r: "r = (if fl_lt t2 t1 then (t2, t1, fl_sub (Fin 1) strength) else (t1, t2, strength))"
    and saved: "savetxt filename (Arr2 [[fst r, fst (snd r), snd (snd r)]]) tempo_fmt '' '' [] w
                  = (Inr (), w')"
  shows "write_tempo savetxt tempi filename True w = (Inr r, w')
         \<and> (fl_le t1 t2 \<longrightarrow> r = (t1, t2, strength))"
proof -
  from computed have "tempo_triple tempi False = Inr (t1, t2, strength)"
    by (auto simp: write_tempo_def split: sum.splits prod.splits)
  then have "tempo_triple tempi True = Inr r"
    unfolding r by (rule tempo_triple_mirex)
  with saved have "write_tempo savetxt tempi filename True w = (Inr r, w')"
    by (cases r) (simp add: write_tempo_def)
  moreover have "fl_le t1 t2 \<longrightarrow> r = (t1, t2, strength)"
    using fl_lt_not_le [of t2 t1] by (auto simp: r)
  ultimately show ?thesis by simp
qed

theorem write_tempo_mirex_witness:
  "write_tempo savetxt_log (Arr2 [[Fin 120, Fin (3/5)], [Fin 100, Fin (2/5)]]) ''tempo.txt''
       False []
     = (Inr (Fin 120, Fin 100, Fin (3/5)),
        [(''tempo.txt'', Arr2 [[Fin 120, Fin 100, Fin (3/5)]])])
   \<and> write_tempo savetxt_log (Arr2 [[Fin 120, Fin (3/5)], [Fin 100, Fin (2/5)]]) ''tempo.txt''
       True []
     = (Inr (Fin 100, Fin 120, Fin (2/5)),
        [(''tempo.txt'', Arr2 [[Fin 100, Fin 120, Fin (2/5)]])])"
proof -
  have computed:
    "write_tempo savetxt_log (Arr2 [[Fin 120, Fin (3/5)], [Fin 100, Fin (2/5)]]) ''tempo.txt''
         False []
       = (Inr (Fin 120, Fin 100, Fin (3/5)),
          [(''tempo.txt'', Arr2 [[Fin 120, Fin 100, Fin (3/5)]])])"
    by (simp add: write_tempo_def tempo_triple_def item_def savetxt_log_def Let_def)
  show ?thesis
    using computed
      write_tempo_mirex [OF computed, of "(Fin 100, Fin 120, Fin (2/5))"
        "[(''tempo.txt'', Arr2 [[Fin 100, Fin 120, Fin (2/5)]])]"]
    by (simp add: savetxt_log_def fl_sub_def)
qed

text \<open>
  After \<open>np.array(tempi, ndmin=2)\<close> only a two-dimensional array of no rows has no row. An
  empty one-dimensional input becomes one row of no columns: its \<open>len\<close> is 1, and reading
  \<open>tempi[0][0]\<close> is an IndexError, whatever the destination.
\<close>

lemma atleast_2d_no_rows: "atleast_2d tempi = [] \<longleftrightarrow> tempi = Arr2 []"
  by (cases tempi) auto

lemma write_tempo_empty_1d:
  "write_tempo savetxt (Arr1 []) filename mirex w = (Inl IndexError, w)"
  by (simp add: write_tempo_def tempo_triple_def item_def Let_def)

text \<open>
  C5, as amended: for every input that is a two-dimensional array with no rows, that is, whose
  array after \<open>np.array(tempi, ndmin=2)\<close> has length 0, and the write succeeding, write_tempo
  returns the defaults \<open>t1 = 0\<close>, \<open>t2 = 0\<close>, \<open>strength = 1.0\<close>, with or without \<open>mirex\<close>.
\<close>

theorem write_tempo_zero_rows:
  assumes "atleast_2d tempi = []"
    and "savetxt filename (Arr2 [[Fin 0, Fin 0, Fin 1]]) tempo_fmt '' '' [] w = (Inr (), w')"
  shows "write_tempo savetxt tempi filename mirex w = (Inr (Fin 0, Fin 0, Fin 1), w')"
  using assms
  by (auto simp: write_tempo_def tempo_triple_def Let_def)

theorem write_tempo_zero_rows_witness:
  "atleast_2d (Arr2 []) = []
   \<and> write_tempo savetxt_log (Arr2 []) ''tempo.txt'' True []
       = (Inr (Fin 0, Fin 0, Fin 1), [(''tempo.txt'', Arr2 [[Fin 0, Fin 0, Fin 1]])])"
  using write_tempo_zero_rows [of "Arr2 []" savetxt_log "''tempo.txt''" "[]"
      "[(''tempo.txt'', Arr2 [[Fin 0, Fin 0, Fin 1]])]" True]
  by (simp add: savetxt_log_def)

text \<open>
  The claim as it was stated fails for the empty input \<open>[]\<close>, the input that the coercion
  acts on: it is coerced to the single row \<open>[[]]\<close>, nothing is written, and the call ends
  with an IndexError instead of the defaults.
\<close>

theorem write_tempo_zero_rows_counterexample:
  "atleast_2d (Arr1 []) = [[]]
   \<and> write_tempo savetxt_log (Arr1 []) ''tempo.txt'' False [] = (Inl IndexError, [])
   \<and> write_tempo savetxt_log (Arr1 []) ''tempo.txt'' False []
       \<noteq> (Inr (Fin 0, Fin 0, Fin 1), [(''tempo.txt'', Arr2 [[Fin 0, Fin 0, Fin 1]])])"
  by (simp add: write_tempo_def tempo_triple_def item_def Let_def)

end
